theory Spec2Isabelle
  imports Main "HOL-Library.Monad_Syntax"
begin

section \<open>The symbol map (utils/symbolTable.hpp)\<close>

text \<open>
  \<^verbatim>\<open>MangleName\<close> holds two \<^verbatim>\<open>std::map<std::string, std::string>\<close>, one for the
  global names and one for the local names.  A \<^verbatim>\<open>std::map\<close> is a finite partial
  function from keys to values; \<^verbatim>\<open>count(name) != 0\<close> is membership in its domain.
\<close>

record MangleName =
  m_global_names :: "string \<rightharpoonup> string"
  m_local_names :: "string \<rightharpoonup> string"

definition set_local :: "string \<Rightarrow> MangleName \<Rightarrow> MangleName" where
  "set_local original m =
     m\<lparr>m_local_names := (m_local_names m)(original \<mapsto> ''____PEREGRINE____PEREGRINE____'' @ original)\<rparr>"

definition set_global :: "string \<Rightarrow> string \<Rightarrow> MangleName \<Rightarrow> MangleName" where
  "set_global original mangled m =
     m\<lparr>m_global_names := (m_global_names m)(original \<mapsto> mangled)\<rparr>"

definition clear_local :: "MangleName \<Rightarrow> MangleName" where
  "clear_local m = m\<lparr>m_local_names := Map.empty\<rparr>"

definition contains :: "MangleName \<Rightarrow> string \<Rightarrow> bool" where
  "contains m name =
     (if name = ''error'' \<or> name = ''printf'' then True
      else if m_local_names m name \<noteq> None then True
      else if m_global_names m name \<noteq> None then True
      else False)"

text \<open>
  \<^verbatim>\<open>MangleName::operator[]\<close>.  The two inner \<^verbatim>\<open>std::map::operator[]\<close> calls are
  guarded by \<^verbatim>\<open>count(name) != 0\<close>, so they never insert and the object is unchanged.
\<close>

definition lookup :: "MangleName \<Rightarrow> string \<Rightarrow> string" where
  "lookup m name =
     (if name = ''printf'' \<or> name = ''error'' then name
      else case m_local_names m name of
             Some v \<Rightarrow> v
           | None \<Rightarrow> (case m_global_names m name of
                        Some v \<Rightarrow> v
                      | None \<Rightarrow> name))"

section \<open>Tokens and the abstract syntax tree\<close>

text \<open>
  The enumeration \<^verbatim>\<open>TokenType\<close> is declared in \<^verbatim>\<open>lexer/tokens.hpp\<close>, which is not
  among the sources.  An enumerator is modelled by its name; two enumerators are equal
  exactly when their names are.  The enumerators that \<^verbatim>\<open>parser.cpp\<close> and
  \<^verbatim>\<open>codegen.cpp\<close> mention get an abbreviation; any other enumerator is
  \<open>TokenType n\<close> for its own name \<open>n\<close>.
\<close>

datatype TokenType = TokenType string

abbreviation tk_negative :: TokenType where "tk_negative \<equiv> TokenType ''tk_negative''"
abbreviation tk_bit_not :: TokenType where "tk_bit_not \<equiv> TokenType ''tk_bit_not''"
abbreviation tk_and :: TokenType where "tk_and \<equiv> TokenType ''tk_and''"
abbreviation tk_or :: TokenType where "tk_or \<equiv> TokenType ''tk_or''"
abbreviation tk_not :: TokenType where "tk_not \<equiv> TokenType ''tk_not''"
abbreviation tk_not_equal :: TokenType where "tk_not_equal \<equiv> TokenType ''tk_not_equal''"
abbreviation tk_is_not :: TokenType where "tk_is_not \<equiv> TokenType ''tk_is_not''"
abbreviation tk_is :: TokenType where "tk_is \<equiv> TokenType ''tk_is''"
abbreviation tk_not_in :: TokenType where "tk_not_in \<equiv> TokenType ''tk_not_in''"
abbreviation tk_in :: TokenType where "tk_in \<equiv> TokenType ''tk_in''"
abbreviation tk_greater :: TokenType where "tk_greater \<equiv> TokenType ''tk_greater''"
abbreviation tk_less :: TokenType where "tk_less \<equiv> TokenType ''tk_less''"
abbreviation tk_gr_or_equ :: TokenType where "tk_gr_or_equ \<equiv> TokenType ''tk_gr_or_equ''"
abbreviation tk_less_or_equ :: TokenType where "tk_less_or_equ \<equiv> TokenType ''tk_less_or_equ''"
abbreviation tk_equal :: TokenType where "tk_equal \<equiv> TokenType ''tk_equal''"
abbreviation tk_bit_or :: TokenType where "tk_bit_or \<equiv> TokenType ''tk_bit_or''"
abbreviation tk_xor :: TokenType where "tk_xor \<equiv> TokenType ''tk_xor''"
abbreviation tk_bit_and :: TokenType where "tk_bit_and \<equiv> TokenType ''tk_bit_and''"
abbreviation tk_shift_left :: TokenType where "tk_shift_left \<equiv> TokenType ''tk_shift_left''"
abbreviation tk_shift_right :: TokenType where "tk_shift_right \<equiv> TokenType ''tk_shift_right''"
abbreviation tk_plus :: TokenType where "tk_plus \<equiv> TokenType ''tk_plus''"
abbreviation tk_minus :: TokenType where "tk_minus \<equiv> TokenType ''tk_minus''"
abbreviation tk_multiply :: TokenType where "tk_multiply \<equiv> TokenType ''tk_multiply''"
abbreviation tk_divide :: TokenType where "tk_divide \<equiv> TokenType ''tk_divide''"
abbreviation tk_modulo :: TokenType where "tk_modulo \<equiv> TokenType ''tk_modulo''"
abbreviation tk_floor :: TokenType where "tk_floor \<equiv> TokenType ''tk_floor''"
abbreviation tk_exponent :: TokenType where "tk_exponent \<equiv> TokenType ''tk_exponent''"
abbreviation tk_dot :: TokenType where "tk_dot \<equiv> TokenType ''tk_dot''"
abbreviation tk_list_open :: TokenType where "tk_list_open \<equiv> TokenType ''tk_list_open''"
abbreviation tk_l_paren :: TokenType where "tk_l_paren \<equiv> TokenType ''tk_l_paren''"
abbreviation tk_new_line :: TokenType where "tk_new_line \<equiv> TokenType ''tk_new_line''"
abbreviation tk_eof :: TokenType where "tk_eof \<equiv> TokenType ''tk_eof''"
abbreviation tk_const :: TokenType where "tk_const \<equiv> TokenType ''tk_const''"
abbreviation tk_at :: TokenType where "tk_at \<equiv> TokenType ''tk_at''"
abbreviation tk_if :: TokenType where "tk_if \<equiv> TokenType ''tk_if''"
abbreviation tk_while :: TokenType where "tk_while \<equiv> TokenType ''tk_while''"
abbreviation tk_for :: TokenType where "tk_for \<equiv> TokenType ''tk_for''"
abbreviation tk_from :: TokenType where "tk_from \<equiv> TokenType ''tk_from''"
abbreviation tk_import :: TokenType where "tk_import \<equiv> TokenType ''tk_import''"
abbreviation tk_def :: TokenType where "tk_def \<equiv> TokenType ''tk_def''"
abbreviation tk_break :: TokenType where "tk_break \<equiv> TokenType ''tk_break''"
abbreviation tk_pass :: TokenType where "tk_pass \<equiv> TokenType ''tk_pass''"
abbreviation tk_match :: TokenType where "tk_match \<equiv> TokenType ''tk_match''"
abbreviation tk_continue :: TokenType where "tk_continue \<equiv> TokenType ''tk_continue''"
abbreviation tk_return :: TokenType where "tk_return \<equiv> TokenType ''tk_return''"
abbreviation tk_scope :: TokenType where "tk_scope \<equiv> TokenType ''tk_scope''"
abbreviation tk_cppcode :: TokenType where "tk_cppcode \<equiv> TokenType ''tk_cppcode''"
abbreviation tk_type :: TokenType where "tk_type \<equiv> TokenType ''tk_type''"
abbreviation tk_identifier :: TokenType where "tk_identifier \<equiv> TokenType ''tk_identifier''"
abbreviation tk_assign :: TokenType where "tk_assign \<equiv> TokenType ''tk_assign''"
abbreviation tk_dedent :: TokenType where "tk_dedent \<equiv> TokenType ''tk_dedent''"
abbreviation tk_as :: TokenType where "tk_as \<equiv> TokenType ''tk_as''"
abbreviation tk_comma :: TokenType where "tk_comma \<equiv> TokenType ''tk_comma''"
abbreviation tk_colon :: TokenType where "tk_colon \<equiv> TokenType ''tk_colon''"
abbreviation tk_ident :: TokenType where "tk_ident \<equiv> TokenType ''tk_ident''"
abbreviation tk_elif :: TokenType where "tk_elif \<equiv> TokenType ''tk_elif''"
abbreviation tk_else :: TokenType where "tk_else \<equiv> TokenType ''tk_else''"
abbreviation tk_r_paren :: TokenType where "tk_r_paren \<equiv> TokenType ''tk_r_paren''"
abbreviation tk_arrow :: TokenType where "tk_arrow \<equiv> TokenType ''tk_arrow''"
abbreviation tk_integer :: TokenType where "tk_integer \<equiv> TokenType ''tk_integer''"
abbreviation tk_decimal :: TokenType where "tk_decimal \<equiv> TokenType ''tk_decimal''"
abbreviation tk_none :: TokenType where "tk_none \<equiv> TokenType ''tk_none''"
abbreviation tk_format :: TokenType where "tk_format \<equiv> TokenType ''tk_format''"
abbreviation tk_raw :: TokenType where "tk_raw \<equiv> TokenType ''tk_raw''"
abbreviation tk_string :: TokenType where "tk_string \<equiv> TokenType ''tk_string''"
abbreviation tk_true :: TokenType where "tk_true \<equiv> TokenType ''tk_true''"
abbreviation tk_false :: TokenType where "tk_false \<equiv> TokenType ''tk_false''"
abbreviation tk_dict_open :: TokenType where "tk_dict_open \<equiv> TokenType ''tk_dict_open''"
abbreviation tk_list_close :: TokenType where "tk_list_close \<equiv> TokenType ''tk_list_close''"
abbreviation tk_case :: TokenType where "tk_case \<equiv> TokenType ''tk_case''"
abbreviation tk_underscore :: TokenType where "tk_underscore \<equiv> TokenType ''tk_underscore''"
abbreviation tk_default :: TokenType where "tk_default \<equiv> TokenType ''tk_default''"

text \<open>
  \<^verbatim>\<open>Token\<close>: the parser reads \<^verbatim>\<open>tkType\<close>, \<^verbatim>\<open>keyword\<close>, \<^verbatim>\<open>line\<close>, \<^verbatim>\<open>start\<close>
  and \<^verbatim>\<open>statement\<close>.
\<close>

record Token =
  tkType :: TokenType
  keyword :: string
  line :: nat
  start :: nat
  statement :: string

text \<open>
  \<^verbatim>\<open>ast::parameter\<close>; \<^verbatim>\<open>codegenFuncParams\<close> reads \<^verbatim>\<open>p_type\<close>, \<^verbatim>\<open>p_name\<close> and
  \<^verbatim>\<open>p_default\<close>.
\<close>

datatype (plugins only: size) 'n parameter = parameter (p_type: 'n) (p_name: 'n) (p_default: 'n)

text \<open>
  The node classes are declared in \<^verbatim>\<open>ast/ast.hpp\<close>, which is not among the sources.
  Each constructor below lists the originating token followed by the children that the
  accessors used in \<^verbatim>\<open>codegen.cpp\<close> return, in this order:
  \<^verbatim>\<open>FunctionDefinition\<close> token, returnType, name, parameters, body;
  \<^verbatim>\<open>VariableStatement\<close> token, varType, name, value;
  \<^verbatim>\<open>ConstDeclaration\<close> token, constType, name, value;
  \<^verbatim>\<open>TypeDefinition\<close> token, name, baseType;
  \<^verbatim>\<open>IfStatement\<close> token, condition, ifBody, elseBody, elifs;
  \<^verbatim>\<open>ForStatement\<close> token, variable, sequence, body;
  \<^verbatim>\<open>MatchStatement\<close> token, matchItem, caseBody, defaultBody;
  \<^verbatim>\<open>BinaryOperation\<close> token, left, op, right;
  \<^verbatim>\<open>PrefixExpression\<close> token, prefix, right;
  \<^verbatim>\<open>UnionLiteral\<close> token, elements, name;
  \<^verbatim>\<open>EnumLiteral\<close> token, fields, name;
  \<^verbatim>\<open>ClassDefinition\<close> token, name, parent, attributes, methods, other;
  \<^verbatim>\<open>WithStatement\<close> token, variables, values, body;
  \<^verbatim>\<open>TryExcept\<close> token, body, except\_clauses, else\_body;
  \<^verbatim>\<open>MultipleAssign\<close> token, names, values.
  \<^verbatim>\<open>NullPtr\<close> is a null \<^verbatim>\<open>AstNodePtr\<close>, which the parser leaves in a node on some
  of its error paths.  \<^verbatim>\<open>TypeTuple\<close> and \<^verbatim>\<open>ExpressionTuple\<close> are the two tuple nodes
  (see \<open>TurpleTypes\<close> below).
\<close>

datatype (plugins only: size) AstNode =
    NullPtr
  | Program "AstNode list"
  | BlockStatement "AstNode list"
  | ScopeStatement Token AstNode
  | ImportStatement Token "AstNode \<times> AstNode" "(AstNode \<times> AstNode) list"
  | FunctionDefinition Token AstNode AstNode "AstNode parameter list" AstNode
  | VariableStatement Token AstNode AstNode AstNode
  | ConstDeclaration Token AstNode AstNode AstNode
  | TypeDefinition Token AstNode AstNode
  | PassStatement Token
  | IfStatement Token AstNode AstNode AstNode "(AstNode \<times> AstNode) list"
  | WhileStatement Token AstNode AstNode
  | ForStatement Token "AstNode list" AstNode AstNode
  | MatchStatement Token "AstNode list" "(AstNode list \<times> AstNode) list" AstNode
  | ReturnStatement Token AstNode
  | ContinueStatement Token
  | BreakStatement Token
  | DecoratorStatement Token "AstNode list" AstNode
  | ListLiteral Token "AstNode list"
  | DictLiteral Token "(AstNode \<times> AstNode) list"
  | ListOrDictAccess Token AstNode "AstNode list"
  | BinaryOperation Token AstNode Token AstNode
  | PrefixExpression Token Token AstNode
  | PostfixExpression Token AstNode Token
  | FunctionCall Token AstNode "AstNode list"
  | ArrowExpression Token AstNode AstNode
  | DotExpression Token AstNode AstNode
  | IdentifierExpression Token string
  | TypeExpression Token string "AstNode list"
  | ListTypeExpr Token AstNode
  | DictTypeExpr Token AstNode AstNode
  | FunctionTypeExpr Token "AstNode list" AstNode
  | NoLiteral
  | IntegerLiteral Token string
  | DecimalLiteral Token string
  | StringLiteral Token string bool bool
  | BoolLiteral Token string
  | NoneLiteral Token
  | AssertStatement Token AstNode
  | StaticStatement Token AstNode
  | InlineStatement Token AstNode
  | RaiseStatement Token AstNode
  | UnionLiteral Token "(AstNode \<times> AstNode) list" AstNode
  | EnumLiteral Token "(AstNode \<times> AstNode) list" AstNode
  | CastStatement Token AstNode AstNode
  | PointerTypeExpr Token AstNode
  | RefTypeExpr Token AstNode
  | ClassDefinition Token AstNode "AstNode list" "AstNode list" "AstNode list" "AstNode list"
  | WithStatement Token "AstNode list" "AstNode list" AstNode
  | DefaultArg Token AstNode AstNode
  | ExportStatement Token AstNode
  | TernaryIf Token AstNode AstNode AstNode
  | TryExcept Token AstNode "((AstNode list \<times> AstNode) \<times> AstNode) list" AstNode
  | MultipleAssign Token "AstNode list" "AstNode list"
  | AugAssign Token AstNode string AstNode
  | LamdaDefine Token "AstNode list" "AstNode list"
  | TypeTuple Token "AstNode list"
  | ExpressionTuple Token "AstNode list"
  | InlineCppBlock Token string

text \<open>\<^verbatim>\<open>std::to_string\<close> on an unsigned number: its decimal digits.\<close>

function to_string :: "nat \<Rightarrow> string" where
  "to_string n =
     (if n < 10 then [''0123456789'' ! n]
      else to_string (n div 10) @ [''0123456789'' ! (n mod 10)])"
  by pat_completeness auto
termination
  by (relation "measure id") auto

declare to_string.simps [simp del]

section \<open>The parser (parser/parser.cpp)\<close>

text \<open>
  Modelled from the spec: the enumeration \<^verbatim>\<open>PrecedenceType\<close> is declared in
  \<^verbatim>\<open>parser/parser.hpp\<close>, which is not among the sources.  The specification gives its
  levels and their order, \<^verbatim>\<open>lowest < and_or < not < compare < bit_or < bit_xor < bit_and
  < bit_shift < sum_minus < mul_div < expo < prefix < dot_ref < list_access < call\<close>;
  \<open>precedence_value\<close> is the position of a level in this order, and the comparison of two
  levels in the source is the comparison of their positions.
\<close>

datatype PrecedenceType =
    pr_lowest | pr_and_or | pr_not | pr_compare | pr_bit_or | pr_bit_xor | pr_bit_and
  | pr_bit_shift | pr_sum_minus | pr_mul_div | pr_expo | pr_prefix | pr_dot_ref
  | pr_list_access | pr_call

fun precedence_value :: "PrecedenceType \<Rightarrow> nat" where
  "precedence_value pr_lowest = 0"
| "precedence_value pr_and_or = 1"
| "precedence_value pr_not = 2"
| "precedence_value pr_compare = 3"
| "precedence_value pr_bit_or = 4"
| "precedence_value pr_bit_xor = 5"
| "precedence_value pr_bit_and = 6"
| "precedence_value pr_bit_shift = 7"
| "precedence_value pr_sum_minus = 8"
| "precedence_value pr_mul_div = 9"
| "precedence_value pr_expo = 10"
| "precedence_value pr_prefix = 11"
| "precedence_value pr_dot_ref = 12"
| "precedence_value pr_list_access = 13"
| "precedence_value pr_call = 14"

definition createMap :: "TokenType \<rightharpoonup> PrecedenceType" where
  "createMap = Map.empty
     (tk_negative \<mapsto> pr_prefix,
      tk_bit_not \<mapsto> pr_prefix,
      tk_and \<mapsto> pr_and_or,
      tk_or \<mapsto> pr_and_or,
      tk_not \<mapsto> pr_not,
      tk_not_equal \<mapsto> pr_compare,
      tk_is_not \<mapsto> pr_compare,
      tk_is \<mapsto> pr_compare,
      tk_not_in \<mapsto> pr_compare,
      tk_in \<mapsto> pr_compare,
      tk_greater \<mapsto> pr_compare,
      tk_less \<mapsto> pr_compare,
      tk_gr_or_equ \<mapsto> pr_compare,
      tk_less_or_equ \<mapsto> pr_compare,
      tk_equal \<mapsto> pr_compare,
      tk_bit_or \<mapsto> pr_bit_or,
      tk_xor \<mapsto> pr_bit_xor,
      tk_bit_and \<mapsto> pr_bit_and,
      tk_shift_left \<mapsto> pr_bit_shift,
      tk_shift_right \<mapsto> pr_bit_shift,
      tk_plus \<mapsto> pr_sum_minus,
      tk_minus \<mapsto> pr_sum_minus,
      tk_multiply \<mapsto> pr_mul_div,
      tk_divide \<mapsto> pr_mul_div,
      tk_modulo \<mapsto> pr_mul_div,
      tk_floor \<mapsto> pr_mul_div,
      tk_exponent \<mapsto> pr_expo,
      tk_dot \<mapsto> pr_dot_ref,
      tk_list_open \<mapsto> pr_list_access,
      tk_l_paren \<mapsto> pr_call)"

text \<open>
  \<^verbatim>\<open>precedenceMap[k]\<close>.  For a key that is absent \<^verbatim>\<open>std::map::operator[]\<close> inserts
  and returns the value-initialised level, the first enumerator \<^verbatim>\<open>pr_lowest\<close>.  The
  inserted entry is never told apart from an absent one: \<^verbatim>\<open>nextPrecedence\<close> answers
  \<^verbatim>\<open>pr_lowest\<close> for both.  So the map itself is not part of the state.
\<close>

definition precedenceMap :: "TokenType \<Rightarrow> PrecedenceType" where
  "precedenceMap k = (case createMap k of Some pr \<Rightarrow> pr | None \<Rightarrow> pr_lowest)"

text \<open>
  \<^verbatim>\<open>PEError\<close>, built by \<^verbatim>\<open>Parser::error\<close> as
  \<^verbatim>\<open>{{tok.line, tok.start, m_filename, tok.statement}, msg, "", "", ""}\<close>.
\<close>

datatype Location = Location nat nat string string

datatype PEError = PEError Location string string string string

text \<open>
  The parser object.  \<^verbatim>\<open>m_tokIndex\<close> only ever grows; it is a natural number here.
\<close>

record Parser =
  m_tokens :: "Token list"
  m_tokIndex :: nat
  m_currentToken :: Token
  m_errors :: "PEError list"
  m_filename :: string

text \<open>
  What \<^verbatim>\<open>parser.cpp\<close> uses and the sources do not contain, taken as parameters:
  the default-constructed \<^verbatim>\<open>Token\<close> that \<^verbatim>\<open>next()\<close> returns past the end of the
  vector, the numeric value of an enumerator (printed into messages by
  \<^verbatim>\<open>std::to_string\<close>), and the parse routines that are defined in another file.  Such a
  routine is any function from the parser object to the node it returns and the object it
  leaves, or to \<open>None\<close> when it does not return.
\<close>

record Externals =
  default_Token :: Token
  tk_number :: "TokenType \<Rightarrow> nat"
  parseInteger :: "Parser \<Rightarrow> (AstNode \<times> Parser) option"
  parseDecimal :: "Parser \<Rightarrow> (AstNode \<times> Parser) option"
  parseNone :: "Parser \<Rightarrow> (AstNode \<times> Parser) option"
  parseString :: "bool \<Rightarrow> bool \<Rightarrow> Parser \<Rightarrow> (AstNode \<times> Parser) option"
  parseBool :: "Parser \<Rightarrow> (AstNode \<times> Parser) option"
  parseList :: "Parser \<Rightarrow> (AstNode \<times> Parser) option"
  parseDict :: "Parser \<Rightarrow> (AstNode \<times> Parser) option"
  parseCpp :: "Parser \<Rightarrow> (AstNode \<times> Parser) option"

definition advance :: "Parser \<Rightarrow> Parser" where
  "advance p =
     (let p' = p\<lparr>m_tokIndex := m_tokIndex p + 1\<rparr>
      in if m_tokIndex p' < length (m_tokens p')
         then p'\<lparr>m_currentToken := m_tokens p' ! m_tokIndex p'\<rparr>
         else p')"

definition next_token :: "Externals \<Rightarrow> Parser \<Rightarrow> Token" where
  "next_token X p =
     (if m_tokIndex p + 1 < length (m_tokens p) then m_tokens p ! (m_tokIndex p + 1)
      else default_Token X)"

definition advanceOnNewLine :: "Externals \<Rightarrow> Parser \<Rightarrow> Parser" where
  "advanceOnNewLine X p = (if tkType (next_token X p) = tk_new_line then advance p else p)"

definition nextPrecedence :: "Externals \<Rightarrow> Parser \<Rightarrow> PrecedenceType" where
  "nextPrecedence X p =
     (if createMap (tkType (next_token X p)) \<noteq> None then precedenceMap (tkType (next_token X p))
      else pr_lowest)"

definition error :: "Token \<Rightarrow> string \<Rightarrow> Parser \<Rightarrow> Parser" where
  "error tok msg p =
     p\<lparr>m_errors := m_errors p @
          [PEError (Location (line tok) (start tok) (m_filename p) (statement tok)) msg [] [] []]\<rparr>"

definition expect :: "Externals \<Rightarrow> TokenType \<Rightarrow> Parser \<Rightarrow> Parser" where
  "expect X expectedType p =
     advance
       (if tkType (next_token X p) \<noteq> expectedType
        then error (next_token X p)
               (''expected token of type '' @ to_string (tk_number X expectedType) @
                '', got '' @ to_string (tk_number X (tkType (next_token X p))) @ '' instead'') p
        else p)"

definition parseIdentifier :: "Parser \<Rightarrow> AstNode" where
  "parseIdentifier p = IdentifierExpression (m_currentToken p) (keyword (m_currentToken p))"

definition parseType :: "Parser \<Rightarrow> AstNode" where
  "parseType p = TypeExpression (m_currentToken p) (keyword (m_currentToken p)) []"

definition parseName :: "Externals \<Rightarrow> Parser \<Rightarrow> AstNode \<times> Parser" where
  "parseName X p =
     (let p' = (if tkType (m_currentToken p) \<noteq> tk_identifier
                then error (m_currentToken p)
                       (''expected an identifier, got '' @
                        to_string (tk_number X (tkType (m_currentToken p))) @ '' instead'') p
                else p)
      in (parseIdentifier p', p'))"

text \<open>
  The expression parser.  \<^verbatim>\<open>parseExpression\<close> and the routines it dispatches to call
  each other, and nothing in the sources bounds the depth of these calls.  So
  \<open>parseExpression\<close> takes the number of nested calls it may still make, and \<open>None\<close>
  is a run that needs more; a loop takes the number of iterations it may still make.  The
  routines that call back into \<^verbatim>\<open>parseExpression\<close> are written before it and receive it
  as their first argument \<open>parseExpression'\<close> (a level and a parser object to a result).
  \<^verbatim>\<open>parseExpression()\<close> without an argument is \<^verbatim>\<open>parseExpression(pr_lowest)\<close>.  A
  \<^verbatim>\<open>switch\<close> on the token type is the chain of its tests.
\<close>

type_synonym parse_result = "(AstNode \<times> Parser) option"

definition parseBinaryOperation ::
  "(PrecedenceType \<Rightarrow> Parser \<Rightarrow> parse_result) \<Rightarrow> AstNode \<Rightarrow> Parser \<Rightarrow> parse_result" where
  "parseBinaryOperation parseExpression' left p =
     (let op = m_currentToken p;
          precedence = precedenceMap (tkType (m_currentToken p))
      in do {
           (right, p1) \<leftarrow> parseExpression' precedence (advance p);
           Some (BinaryOperation op left op right, p1)
         })"

text \<open>The \<^verbatim>\<open>do ... while (m_currentToken.tkType == tk_comma)\<close> loop of \<^verbatim>\<open>parseFunctionCall\<close>.\<close>

primrec parseFunctionCall_loop ::
  "nat \<Rightarrow> (PrecedenceType \<Rightarrow> Parser \<Rightarrow> parse_result) \<Rightarrow> AstNode list \<Rightarrow> Parser
     \<Rightarrow> (AstNode list \<times> Parser) option" where
  "parseFunctionCall_loop 0 parseExpression' arguments p = None"
| "parseFunctionCall_loop (Suc n) parseExpression' arguments p =
     do {
       (argument, p1) \<leftarrow> parseExpression' pr_lowest (advance p);
       let p2 = advance p1;
       if tkType (m_currentToken p2) = tk_comma
       then parseFunctionCall_loop n parseExpression' (arguments @ [argument]) p2
       else Some (arguments @ [argument], p2)
     }"

definition parseFunctionCall ::
  "Externals \<Rightarrow> nat \<Rightarrow> (PrecedenceType \<Rightarrow> Parser \<Rightarrow> parse_result) \<Rightarrow> AstNode \<Rightarrow> Parser
     \<Rightarrow> parse_result" where
  "parseFunctionCall X n parseExpression' left p =
     (let tok = m_currentToken p in
      do {
        (arguments, p1) \<leftarrow>
          (if tkType (next_token X p) \<noteq> tk_r_paren
           then parseFunctionCall_loop n parseExpression' [] p
           else Some ([], advance p));
        let p2 = (if tkType (m_currentToken p1) \<noteq> tk_r_paren
                  then error (m_currentToken p1)
                         (''expected ), got '' @ keyword (m_currentToken p1) @ '' instead'') p1
                  else p1);
        Some (FunctionCall tok left arguments, advanceOnNewLine X p2)
      })"

definition parseListOrDictAccess ::
  "Externals \<Rightarrow> (PrecedenceType \<Rightarrow> Parser \<Rightarrow> parse_result) \<Rightarrow> AstNode \<Rightarrow> Parser \<Rightarrow> parse_result" where
  "parseListOrDictAccess X parseExpression' left p =
     (let tok = m_currentToken p in
      do {
        (keyOrIndex, p1) \<leftarrow> parseExpression' pr_lowest (advance p);
        let p2 = expect X tk_list_close p1;
        let node = ListOrDictAccess tok left [keyOrIndex];
        if tkType (next_token X p2) \<noteq> tk_assign then Some (node, p2)
        else do {
          (newValue, p3) \<leftarrow> parseExpression' pr_lowest (advance (advance p2));
          Some (VariableStatement tok NoLiteral node newValue, advanceOnNewLine X p3)
        }
      })"

definition parseDotExpression ::
  "(PrecedenceType \<Rightarrow> Parser \<Rightarrow> parse_result) \<Rightarrow> AstNode \<Rightarrow> Parser \<Rightarrow> parse_result" where
  "parseDotExpression parseExpression' left p =
     (let tok = m_currentToken p in
      do {
        (referenced, p1) \<leftarrow> parseExpression' pr_lowest (advance p);
        Some (DotExpression tok left referenced, p1)
      })"

definition parsePrefixExpression ::
  "(PrecedenceType \<Rightarrow> Parser \<Rightarrow> parse_result) \<Rightarrow> Parser \<Rightarrow> parse_result" where
  "parsePrefixExpression parseExpression' p =
     (let prefix = m_currentToken p;
          precedence = precedenceMap (tkType (m_currentToken p))
      in do {
           (right, p1) \<leftarrow> parseExpression' precedence (advance p);
           Some (PrefixExpression prefix prefix right, p1)
         })"

definition parseGroupedExpr ::
  "Externals \<Rightarrow> (PrecedenceType \<Rightarrow> Parser \<Rightarrow> parse_result) \<Rightarrow> Parser \<Rightarrow> parse_result" where
  "parseGroupedExpr X parseExpression' p =
     do {
       (expr, p1) \<leftarrow> parseExpression' pr_lowest (advance p);
       Some (expr, expect X tk_r_paren p1)
     }"

text \<open>The \<^verbatim>\<open>while (nextPrecedence() > currPrecedence)\<close> loop of \<^verbatim>\<open>parseExpression\<close>.\<close>

primrec parseExpression_loop ::
  "nat \<Rightarrow> Externals \<Rightarrow> (PrecedenceType \<Rightarrow> Parser \<Rightarrow> parse_result) \<Rightarrow> PrecedenceType \<Rightarrow> AstNode
     \<Rightarrow> Parser \<Rightarrow> parse_result" where
  "parseExpression_loop 0 X parseExpression' currPrecedence left p = None"
| "parseExpression_loop (Suc n) X parseExpression' currPrecedence left p =
     (if precedence_value (nextPrecedence X p) > precedence_value currPrecedence then
        do {
          (left', p2) \<leftarrow>
            (let p1 = advance p; k = tkType (m_currentToken p1) in
             if k = tk_l_paren then parseFunctionCall X n parseExpression' left p1
             else if k = tk_list_open then parseListOrDictAccess X parseExpression' left p1
             else if k = tk_dot then parseDotExpression parseExpression' left p1
             else parseBinaryOperation parseExpression' left p1);
          parseExpression_loop n X parseExpression' currPrecedence left' p2
        }
      else Some (left, p))"

primrec parseExpression :: "nat \<Rightarrow> Externals \<Rightarrow> PrecedenceType \<Rightarrow> Parser \<Rightarrow> parse_result" where
  "parseExpression 0 X currPrecedence p = None"
| "parseExpression (Suc n) X currPrecedence p =
     do {
       (left, p1) \<leftarrow>
         (let k = tkType (m_currentToken p) in
          if k = tk_integer then parseInteger X p
          else if k = tk_decimal then parseDecimal X p
          else if k = tk_none then parseNone X p
          else if k = tk_format then parseString X True False (advance p)
          else if k = tk_raw then parseString X False True (advance p)
          else if k = tk_string then parseString X False False p
          else if k = tk_true \<or> k = tk_false then parseBool X p
          else if k = tk_identifier then Some (parseIdentifier p, p)
          else if k = tk_l_paren then parseGroupedExpr X (parseExpression n X) p
          else if k = tk_list_open then parseList X p
          else if k = tk_dict_open then parseDict X p
          else if k = tk_negative \<or> k = tk_not \<or> k = tk_bit_not
            then parsePrefixExpression (parseExpression n X) p
          else Some (NullPtr,
                     error (m_currentToken p) (keyword (m_currentToken p) @ '' is not an expression'') p));
       (left', p2) \<leftarrow> parseExpression_loop n X (parseExpression n X) currPrecedence left p1;
       Some (left', advanceOnNewLine X p2)
     }"

declare parseExpression.simps [simp del] parseExpression_loop.simps [simp del]
  parseFunctionCall_loop.simps [simp del]

text \<open>
  The statement parser.  The routines below that parse an expression take the number \<open>n\<close>
  of nested calls that \<^verbatim>\<open>parseExpression\<close> may make; the same number bounds the
  iterations of their own loops.  The routines that parse a block call back into
  \<^verbatim>\<open>parseStatement\<close>, which they receive as the argument \<open>parseStatement'\<close>.
\<close>

text \<open>The \<^verbatim>\<open>do ... while\<close> loop of \<^verbatim>\<open>parseImport\<close>; an absent alias is a null pointer.\<close>

primrec parseImport_loop ::
  "nat \<Rightarrow> Externals \<Rightarrow> (AstNode \<times> AstNode) list \<Rightarrow> Parser
     \<Rightarrow> ((AstNode \<times> AstNode) list \<times> Parser) option" where
  "parseImport_loop 0 X importedSymbols p = None"
| "parseImport_loop (Suc n) X importedSymbols p =
     (let p1 = advance p;
          (first, p2) = parseName X p1;
          (importedSymbol, p3) =
            (if tkType (next_token X p2) = tk_as
             then (let (second, p') = parseName X (advance (advance p2)) in ((first, second), p'))
             else ((first, NullPtr), p2));
          importedSymbols' = importedSymbols @ [importedSymbol];
          p4 = (if tkType (next_token X p3) = tk_comma then advance p3 else p3)
      in if tkType (m_currentToken p4) = tk_comma then parseImport_loop n X importedSymbols' p4
         else Some (importedSymbols', p4))"

definition parseImport :: "nat \<Rightarrow> Externals \<Rightarrow> Parser \<Rightarrow> parse_result" where
  "parseImport n X p =
     (let tok = m_currentToken p;
          hasFrom = (tkType (m_currentToken p) = tk_from);
          (first, p1) = parseName X (advance p)
      in if \<not> hasFrom then
           (if tkType (next_token X p1) = tk_as
            then (let (second, p2) = parseName X (advance (advance p1))
                  in Some (ImportStatement tok (first, second) [], p2))
            else Some (ImportStatement tok (first, NullPtr) [], p1))
         else do {
           (importedSymbols, p2) \<leftarrow> parseImport_loop n X [] (expect X tk_import p1);
           Some (ImportStatement tok (first, NullPtr) importedSymbols, advanceOnNewLine X p2)
         })"

definition parseVariableStatement :: "nat \<Rightarrow> Externals \<Rightarrow> Parser \<Rightarrow> parse_result" where
  "parseVariableStatement n X p =
     (let tok = m_currentToken p;
          (varType, p1) = (if tkType (next_token X p) = tk_identifier then (parseType p, advance p)
                           else (NoLiteral, p));
          (name, p2) = parseName X p1
      in if tkType (next_token X p2) = tk_assign then
           do {
             (value, p3) \<leftarrow> parseExpression n X pr_lowest (advance (advance p2));
             Some (VariableStatement tok varType name value, p3)
           }
         else Some (VariableStatement tok varType name NoLiteral, advanceOnNewLine X p2))"

definition parseConstDeclaration :: "nat \<Rightarrow> Externals \<Rightarrow> Parser \<Rightarrow> parse_result" where
  "parseConstDeclaration n X p =
     (let tok = m_currentToken p;
          p1 = expect X tk_identifier p;
          (constType, p2) = (if tkType (next_token X p1) = tk_identifier
                             then (parseType p1, advance p1)
                             else (NoLiteral, p1));
          (name, p3) = parseName X p2
      in do {
           (value, p4) \<leftarrow> parseExpression n X pr_lowest (advance (expect X tk_assign p3));
           Some (ConstDeclaration tok constType name value, p4)
         })"

definition parseReturn :: "nat \<Rightarrow> Externals \<Rightarrow> Parser \<Rightarrow> parse_result" where
  "parseReturn n X p =
     (let tok = m_currentToken p in
      if tkType (next_token X p) \<noteq> tk_new_line then
        do {
          (returnValue, p1) \<leftarrow> parseExpression n X pr_lowest (advance p);
          Some (ReturnStatement tok returnValue, p1)
        }
      else Some (ReturnStatement tok NoLiteral, advance p))"

text \<open>The \<^verbatim>\<open>while (m_currentToken.tkType != tk_r_paren)\<close> loop of \<^verbatim>\<open>parseLamda\<close>.\<close>

primrec parseLamda_loop ::
  "nat \<Rightarrow> Externals \<Rightarrow> AstNode list \<Rightarrow> Parser \<Rightarrow> (AstNode list \<times> Parser) option" where
  "parseLamda_loop 0 X types p = None"
| "parseLamda_loop (Suc n) X types p =
     (if tkType (m_currentToken p) \<noteq> tk_r_paren then
        (let p1 = advance p; k = tkType (m_currentToken p1) in
         if k = tk_identifier then
           (let (t, p2) = parseName X p1 in parseLamda_loop n X (types @ [t]) (advance p2))
         else if k = tk_comma then
           (let (t, p2) = parseName X (expect X tk_identifier p1)
            in parseLamda_loop n X (types @ [t]) (advance p2))
         else if k = tk_r_paren then Some (types, p1)
         else parseLamda_loop n X types (advance p1))
      else Some (types, p))"

definition parseLamda :: "nat \<Rightarrow> Externals \<Rightarrow> Parser \<Rightarrow> parse_result" where
  "parseLamda n X p =
     (let tok = m_currentToken p in
      do {
        (types, p1) \<leftarrow> parseLamda_loop n X [] (expect X tk_l_paren p);
        if tkType (next_token X p1) = tk_arrow
        then (let (t, p2) = parseName X (expect X tk_identifier (advance p1))
              in Some (LamdaDefine tok types [t], p2))
        else Some (LamdaDefine tok types [], p1)
      })"

definition parseTypeDef :: "nat \<Rightarrow> Externals \<Rightarrow> Parser \<Rightarrow> parse_result" where
  "parseTypeDef n X p =
     (let tok = m_currentToken p;
          (name, p1) = parseName X (advance p);
          p2 = advance (expect X tk_assign p1)
      in do {
           (type, p3) \<leftarrow>
             (if tkType (m_currentToken p2) = tk_identifier then Some (parseType p2, p2)
              else if tkType (m_currentToken p2) = tk_def then parseLamda n X p2
              else Some (NullPtr, p2));
           Some (TypeDefinition tok name type, advanceOnNewLine X p3)
         })"

text \<open>The \<^verbatim>\<open>while (m_currentToken.tkType != tk_dedent)\<close> loop of \<^verbatim>\<open>parseBlockStatement\<close>.\<close>

primrec parseBlockStatement_loop ::
  "nat \<Rightarrow> (Parser \<Rightarrow> parse_result) \<Rightarrow> AstNode list \<Rightarrow> Parser \<Rightarrow> (AstNode list \<times> Parser) option" where
  "parseBlockStatement_loop 0 parseStatement' statements p = None"
| "parseBlockStatement_loop (Suc n) parseStatement' statements p =
     (if tkType (m_currentToken p) \<noteq> tk_dedent then
        do {
          let p1 = (if tkType (m_currentToken p) = tk_eof
                    then error (m_currentToken p) ''expected end of identation, got eof instead'' p
                    else p);
          (stmt, p2) \<leftarrow> parseStatement' p1;
          parseBlockStatement_loop n parseStatement' (statements @ [stmt]) (advance p2)
        }
      else Some (statements, p))"

definition parseBlockStatement :: "nat \<Rightarrow> (Parser \<Rightarrow> parse_result) \<Rightarrow> Parser \<Rightarrow> parse_result" where
  "parseBlockStatement n parseStatement' p =
     do {
       (statements, p1) \<leftarrow> parseBlockStatement_loop n parseStatement' [] (advance p);
       Some (BlockStatement statements, p1)
     }"

text \<open>The \<^verbatim>\<open>while (next().tkType == tk_elif)\<close> loop of \<^verbatim>\<open>parseIf\<close>.\<close>

primrec parseIf_loop ::
  "nat \<Rightarrow> Externals \<Rightarrow> nat \<Rightarrow> (Parser \<Rightarrow> parse_result) \<Rightarrow> (AstNode \<times> AstNode) list \<Rightarrow> Parser
     \<Rightarrow> ((AstNode \<times> AstNode) list \<times> Parser) option" where
  "parseIf_loop 0 X n parseStatement' elifs p = None"
| "parseIf_loop (Suc m) X n parseStatement' elifs p =
     (if tkType (next_token X p) = tk_elif then
        do {
          (condition, p1) \<leftarrow> parseExpression n X pr_lowest (advance (advance p));
          (body, p2) \<leftarrow> parseBlockStatement n parseStatement' (expect X tk_ident (expect X tk_colon p1));
          parseIf_loop m X n parseStatement' (elifs @ [(condition, body)]) p2
        }
      else Some (elifs, p))"

definition parseIf :: "nat \<Rightarrow> Externals \<Rightarrow> (Parser \<Rightarrow> parse_result) \<Rightarrow> Parser \<Rightarrow> parse_result" where
  "parseIf n X parseStatement' p =
     (let tok = m_currentToken p in
      do {
        (condition, p1) \<leftarrow> parseExpression n X pr_lowest (advance p);
        (ifBody, p2) \<leftarrow> parseBlockStatement n parseStatement' (expect X tk_ident (expect X tk_colon p1));
        (elifs, p3) \<leftarrow> parseIf_loop n X n parseStatement' [] p2;
        (elseBody, p4) \<leftarrow>
          (if tkType (next_token X p3) = tk_else
           then parseBlockStatement n parseStatement'
                  (expect X tk_ident (expect X tk_colon (advance p3)))
           else Some (NoLiteral, p3));
        Some (IfStatement tok condition ifBody elseBody elifs, p4)
      })"

definition parseScope :: "nat \<Rightarrow> Externals \<Rightarrow> (Parser \<Rightarrow> parse_result) \<Rightarrow> Parser \<Rightarrow> parse_result" where
  "parseScope n X parseStatement' p =
     (let tok = m_currentToken p in
      do {
        (scope_body, p1) \<leftarrow> parseBlockStatement n parseStatement' (expect X tk_ident (expect X tk_colon p));
        Some (ScopeStatement tok scope_body, p1)
      })"

definition parseWhile :: "nat \<Rightarrow> Externals \<Rightarrow> (Parser \<Rightarrow> parse_result) \<Rightarrow> Parser \<Rightarrow> parse_result" where
  "parseWhile n X parseStatement' p =
     (let tok = m_currentToken p in
      do {
        (condition, p1) \<leftarrow> parseExpression n X pr_lowest (advance p);
        (body, p2) \<leftarrow> parseBlockStatement n parseStatement' (expect X tk_ident (expect X tk_colon p1));
        Some (WhileStatement tok condition body, p2)
      })"

definition parseFor :: "nat \<Rightarrow> Externals \<Rightarrow> (Parser \<Rightarrow> parse_result) \<Rightarrow> Parser \<Rightarrow> parse_result" where
  "parseFor n X parseStatement' p =
     (let tok = m_currentToken p;
          (variable, p1) = parseName X (advance p)
      in do {
           (sequence, p2) \<leftarrow> parseExpression n X pr_lowest (advance (expect X tk_in p1));
           (body, p3) \<leftarrow> parseBlockStatement n parseStatement' (expect X tk_ident (expect X tk_colon p2));
           Some (ForStatement tok [variable] sequence body, p3)
         })"

text \<open>
  The \<^verbatim>\<open>do ... while\<close> loop over the parameters of \<^verbatim>\<open>parseFunctionDef\<close>.
  Modelled from the spec: \<^verbatim>\<open>parameter{paramType, paramName}\<close> leaves the default
  expression to the declaration of \<^verbatim>\<open>ast::parameter\<close>, which is not among the sources;
  the specification gives a parameter as \<^verbatim>\<open>{type, name, default_expr = NoLiteral}\<close>.
\<close>

primrec parseFunctionDef_loop ::
  "nat \<Rightarrow> Externals \<Rightarrow> AstNode parameter list \<Rightarrow> Parser
     \<Rightarrow> (AstNode parameter list \<times> Parser) option" where
  "parseFunctionDef_loop 0 X parameters p = None"
| "parseFunctionDef_loop (Suc n) X parameters p =
     (let p1 = advance p;
          p2 = (if tkType (m_currentToken p1) \<noteq> tk_identifier
                then error (next_token X p1)
                       (''expected token of type '' @ to_string (tk_number X tk_identifier) @
                        '', got '' @ to_string (tk_number X (tkType (m_currentToken p1))) @
                        '' instead'') p1
                else p1);
          paramType = parseType p2;
          (paramName, p3) = parseName X (expect X tk_identifier p2);
          parameters' = parameters @ [parameter paramType paramName NoLiteral];
          p4 = advance p3
      in if tkType (m_currentToken p4) = tk_comma then parseFunctionDef_loop n X parameters' p4
         else Some (parameters', p4))"

definition parseFunctionDef ::
  "nat \<Rightarrow> Externals \<Rightarrow> (Parser \<Rightarrow> parse_result) \<Rightarrow> Parser \<Rightarrow> parse_result" where
  "parseFunctionDef n X parseStatement' p =
     (let tok = m_currentToken p;
          (name, p1) = parseName X (expect X tk_identifier p);
          p2 = expect X tk_l_paren p1
      in do {
           (parameters, p3) \<leftarrow>
             (if tkType (next_token X p2) \<noteq> tk_r_paren then parseFunctionDef_loop n X [] p2
              else Some ([], advance p2));
           let p4 = (if tkType (m_currentToken p3) \<noteq> tk_r_paren
                     then error (m_currentToken p3)
                            (''expected ), got '' @ keyword (m_currentToken p3) @ '' instead'') p3
                     else p3);
           let (returnType, p5) =
                 (if tkType (next_token X p4) = tk_arrow
                  then (let p' = expect X tk_identifier (advance p4) in (parseType p', p'))
                  else (IdentifierExpression (m_currentToken p4) ''void'', p4));
           (body, p6) \<leftarrow> parseBlockStatement n parseStatement' (expect X tk_ident (expect X tk_colon p5));
           Some (FunctionDefinition tok returnType name parameters body, p6)
         })"

text \<open>
  The three loops of \<^verbatim>\<open>parseMatch\<close>: over the matched expressions, over the patterns
  of one case, and over the cases.
\<close>

primrec parseMatch_items ::
  "nat \<Rightarrow> Externals \<Rightarrow> nat \<Rightarrow> AstNode list \<Rightarrow> Parser \<Rightarrow> (AstNode list \<times> Parser) option" where
  "parseMatch_items 0 X n to_match p = None"
| "parseMatch_items (Suc m) X n to_match p =
     (if tkType (m_currentToken p) \<noteq> tk_colon then
        do {
          (item, p1) \<leftarrow> parseExpression n X pr_lowest p;
          let p2 = advance p1;
          let p3 = (if tkType (m_currentToken p2) \<noteq> tk_colon then advance p2 else p2);
          parseMatch_items m X n (to_match @ [item]) p3
        }
      else Some (to_match, p))"

primrec parseMatch_case_args ::
  "nat \<Rightarrow> Externals \<Rightarrow> nat \<Rightarrow> AstNode list \<Rightarrow> Parser \<Rightarrow> (AstNode list \<times> Parser) option" where
  "parseMatch_case_args 0 X n cases_arg p = None"
| "parseMatch_case_args (Suc m) X n cases_arg p =
     (if tkType (m_currentToken p) \<noteq> tk_colon then
        do {
          (item, p1) \<leftarrow>
            (if tkType (m_currentToken p) = tk_underscore then Some (NoLiteral, p)
             else parseExpression n X pr_lowest p);
          let p2 = advance p1;
          let p3 = (if tkType (m_currentToken p2) \<noteq> tk_colon then advance p2 else p2);
          parseMatch_case_args m X n (cases_arg @ [item]) p3
        }
      else Some (cases_arg, p))"

primrec parseMatch_cases ::
  "nat \<Rightarrow> Externals \<Rightarrow> nat \<Rightarrow> (Parser \<Rightarrow> parse_result) \<Rightarrow> (AstNode list \<times> AstNode) list \<Rightarrow> Parser
     \<Rightarrow> ((AstNode list \<times> AstNode) list \<times> Parser) option" where
  "parseMatch_cases 0 X n parseStatement' cases p = None"
| "parseMatch_cases (Suc m) X n parseStatement' cases p =
     (if tkType (next_token X p) = tk_case then
        do {
          (cases_arg, p1) \<leftarrow> parseMatch_case_args n X n [] (advance (advance p));
          (body, p2) \<leftarrow> parseBlockStatement n parseStatement' (expect X tk_ident p1);
          parseMatch_cases m X n parseStatement' (cases @ [(cases_arg, body)]) p2
        }
      else Some (cases, p))"

definition parseMatch :: "nat \<Rightarrow> Externals \<Rightarrow> (Parser \<Rightarrow> parse_result) \<Rightarrow> Parser \<Rightarrow> parse_result" where
  "parseMatch n X parseStatement' p =
     (let tok = m_currentToken p in
      do {
        (to_match, p1) \<leftarrow> parseMatch_items n X n [] (advance p);
        (cases, p2) \<leftarrow> parseMatch_cases n X n parseStatement' [] (expect X tk_ident p1);
        (default_body, p3) \<leftarrow>
          (if tkType (next_token X p2) = tk_default
           then parseBlockStatement n parseStatement'
                  (expect X tk_ident (expect X tk_colon (advance p2)))
           else Some (NoLiteral, p2));
        Some (MatchStatement tok to_match cases default_body, expect X tk_dedent p3)
      })"

text \<open>
  \<^verbatim>\<open>parseDecoratorCall\<close>.  The loop parses one decorator expression per \<^verbatim>\<open>@\<close> and
  drops the node that \<^verbatim>\<open>parseExpression\<close> returns; the vector \<^verbatim>\<open>decorators\<close> is
  declared, never written, and handed to the node.  \<^verbatim>\<open>body\<close> stays a null pointer when
  no \<^verbatim>\<open>def\<close> follows.
\<close>

primrec parseDecoratorCall_loop :: "nat \<Rightarrow> Externals \<Rightarrow> nat \<Rightarrow> Parser \<Rightarrow> Parser option" where
  "parseDecoratorCall_loop 0 X n p = None"
| "parseDecoratorCall_loop (Suc m) X n p =
     (if tkType (m_currentToken p) = tk_at then
        do {
          (decorator, p1) \<leftarrow> parseExpression n X pr_lowest (expect X tk_identifier p);
          parseDecoratorCall_loop m X n (advance p1)
        }
      else Some p)"

definition parseDecoratorCall ::
  "nat \<Rightarrow> Externals \<Rightarrow> (Parser \<Rightarrow> parse_result) \<Rightarrow> Parser \<Rightarrow> parse_result" where
  "parseDecoratorCall n X parseStatement' p =
     (let tok = m_currentToken p;
          decorators = []
      in do {
           p1 \<leftarrow> parseDecoratorCall_loop n X n p;
           (body, p2) \<leftarrow>
             (if tkType (m_currentToken p1) = tk_def then parseFunctionDef n X parseStatement' p1
              else Some (NullPtr, p1));
           Some (DecoratorStatement tok decorators body, p2)
         })"

text \<open>
  \<^verbatim>\<open>parseStatement\<close>.  The case \<^verbatim>\<open>tk_identifier\<close> falls through to the default case
  when the next token is neither an identifier nor \<^verbatim>\<open>=\<close>.
\<close>

primrec parseStatement :: "nat \<Rightarrow> Externals \<Rightarrow> Parser \<Rightarrow> parse_result" where
  "parseStatement 0 X p = None"
| "parseStatement (Suc n) X p =
     (let k = tkType (m_currentToken p) in
      if k = tk_const then parseConstDeclaration n X p
      else if k = tk_at then parseDecoratorCall n X (parseStatement n X) p
      else if k = tk_if then parseIf n X (parseStatement n X) p
      else if k = tk_while then parseWhile n X (parseStatement n X) p
      else if k = tk_for then parseFor n X (parseStatement n X) p
      else if k = tk_from \<or> k = tk_import then parseImport n X p
      else if k = tk_def then parseFunctionDef n X (parseStatement n X) p
      else if k = tk_break then Some (BreakStatement (m_currentToken p), advanceOnNewLine X p)
      else if k = tk_pass then Some (PassStatement (m_currentToken p), advanceOnNewLine X p)
      else if k = tk_match then parseMatch n X (parseStatement n X) p
      else if k = tk_continue then Some (ContinueStatement (m_currentToken p), advanceOnNewLine X p)
      else if k = tk_return then parseReturn n X p
      else if k = tk_scope then parseScope n X (parseStatement n X) p
      else if k = tk_cppcode then
        do {
          (stmt, p1) \<leftarrow> parseCpp X (advance p);
          Some (stmt, advanceOnNewLine X p1)
        }
      else if k = tk_type then parseTypeDef n X p
      else if k = tk_identifier \<and>
              (tkType (next_token X p) = tk_identifier \<or> tkType (next_token X p) = tk_assign)
        then parseVariableStatement n X p
      else parseExpression n X pr_lowest p)"

text \<open>
  \<^verbatim>\<open>Parser::parse\<close>.  Its loop is \<open>parse_loop\<close>.  The routine either returns the
  \<^verbatim>\<open>Program\<close> node, or it passes every recorded error to \<^verbatim>\<open>display\<close>, in order, and
  calls \<^verbatim>\<open>exit(1)\<close>: the outcome \<open>Exit\<close> holds the displayed errors and the exit status.
\<close>

datatype outcome = Returned AstNode | Exit "PEError list" nat

primrec parse_loop ::
  "nat \<Rightarrow> Externals \<Rightarrow> nat \<Rightarrow> AstNode list \<Rightarrow> Parser \<Rightarrow> (AstNode list \<times> Parser) option" where
  "parse_loop 0 X n statements p = None"
| "parse_loop (Suc m) X n statements p =
     (if tkType (m_currentToken p) \<noteq> tk_eof then
        do {
          (stmt, p1) \<leftarrow> parseStatement n X p;
          parse_loop m X n (statements @ [stmt]) (advance p1)
        }
      else Some (statements, p))"

definition parse :: "nat \<Rightarrow> Externals \<Rightarrow> Parser \<Rightarrow> outcome option" where
  "parse n X p =
     do {
       (statements, p1) \<leftarrow> parse_loop n X n [] p;
       if m_errors p1 \<noteq> [] then Some (Exit (m_errors p1) 1)
       else Some (Returned (Program statements))
     }"

declare parseImport_loop.simps [simp del] parseLamda_loop.simps [simp del]
  parseBlockStatement_loop.simps [simp del] parseIf_loop.simps [simp del]
  parseFunctionDef_loop.simps [simp del] parseMatch_items.simps [simp del]
  parseMatch_case_args.simps [simp del] parseMatch_cases.simps [simp del]
  parseDecoratorCall_loop.simps [simp del] parseStatement.simps [simp del]
  parse_loop.simps [simp del]

section \<open>The code generator (codegen/cpp/codegen.cpp)\<close>

text \<open>
  \<^verbatim>\<open>global_name\<close>: every \<^verbatim>\<open>\\<close>, \<^verbatim>\<open>/\<close> and \<^verbatim>\<open>.\<close> of the file name becomes
  \<^verbatim>\<open>____\<close>.
\<close>

definition backslash :: string where
  "backslash = [CHR 0x5C]"

definition dquote :: string where
  "dquote = [CHR 0x22]"

fun global_name :: "string \<Rightarrow> string" where
  "global_name [] = []"
| "global_name (c # name) =
     (if c = CHR 0x5C \<or> c = CHR ''/'' \<or> c = CHR ''.'' then ''____'' @ global_name name
      else c # global_name name)"

text \<open>
  The generator object: the text written to the output file so far (\<^verbatim>\<open>m_file\<close>), the
  name of the source file, its mangled form, the symbol map, the flags, the string
  accumulator \<^verbatim>\<open>res\<close> and the enum bookkeeping.
\<close>

record Codegen =
  m_file :: string
  m_filename :: string
  m_global_name :: string
  m_symbolMap :: MangleName
  local :: bool
  is_define :: bool
  is_ref :: bool
  is_func_def :: bool
  is_class :: bool
  is_dot_exp :: bool
  save :: bool
  res :: string
  enum_name :: "string list"
  curr_enum_name :: string

text \<open>\<^verbatim>\<open>Codegen::write\<close>; no caller uses the string it returns.\<close>

definition "write" :: "string \<Rightarrow> Codegen \<Rightarrow> Codegen" where
  "write code s = (if save s then s\<lparr>res := res s @ code\<rparr> else s\<lparr>m_file := m_file s @ code\<rparr>)"

text \<open>
  What \<^verbatim>\<open>codegen.cpp\<close> calls and the sources do not contain, taken as parameters: the
  member functions \<^verbatim>\<open>magic_methord\<close>, \<^verbatim>\<open>matchArg\<close> and \<^verbatim>\<open>wrap\<close>, and the handlers
  of the node classes for which \<^verbatim>\<open>codegen.cpp\<close> defines no \<^verbatim>\<open>visit\<close>.  Each is any
  function of its arguments and the generator object.
\<close>

record Helpers =
  magic_methord :: "AstNode \<Rightarrow> string \<Rightarrow> Codegen \<Rightarrow> Codegen"
  matchArg :: "AstNode list \<Rightarrow> AstNode list \<Rightarrow> Codegen \<Rightarrow> Codegen"
  wrap :: "AstNode \<Rightarrow> string \<Rightarrow> Codegen \<Rightarrow> string \<times> Codegen"
  visit_elsewhere :: "AstNode \<Rightarrow> Codegen \<Rightarrow> Codegen"

text \<open>
  Modelled from the spec: \<^verbatim>\<open>TurpleTypes\<close> and \<^verbatim>\<open>TurpleExpression\<close> are defined in a
  file that is not among the sources.  By the specification a tuple return is ``a function
  whose declared return is a sequence of types'', for which one out-parameter per
  component is emitted, and a returned tuple \<^verbatim>\<open>(e0, e1, ...)\<close> is assigned component by
  component, while anything that is not a tuple is lowered as a single value.  So
  \<^verbatim>\<open>TurpleTypes\<close> yields the component types of a type tuple and \<^verbatim>\<open>TurpleExpression\<close>
  the components of an expression tuple, and both yield the empty vector for every other
  node.
\<close>

fun TurpleTypes :: "AstNode \<Rightarrow> AstNode list" where
  "TurpleTypes (TypeTuple tok types) = types"
| "TurpleTypes node = []"

fun TurpleExpression :: "AstNode \<Rightarrow> AstNode list" where
  "TurpleExpression (ExpressionTuple tok items) = items"
| "TurpleExpression node = []"

text \<open>
  \<^verbatim>\<open>std::dynamic_pointer_cast<ast::IdentifierExpression>(node)->value()\<close>.  On a node of
  another class the source dereferences a null pointer; the empty string stands for that
  here.
\<close>

fun identifier_value :: "AstNode \<Rightarrow> string" where
  "identifier_value (IdentifierExpression tok x) = x"
| "identifier_value node = []"

text \<open>The tests on \<^verbatim>\<open>type()\<close> that the generator makes.\<close>

fun is_BlockStmt :: "AstNode \<Rightarrow> bool" where
  "is_BlockStmt (BlockStatement stmts) = True"
| "is_BlockStmt node = False"

fun is_Identifier :: "AstNode \<Rightarrow> bool" where
  "is_Identifier (IdentifierExpression tok x) = True"
| "is_Identifier node = False"

fun is_DotExpression :: "AstNode \<Rightarrow> bool" where
  "is_DotExpression (DotExpression tok owner referenced) = True"
| "is_DotExpression node = False"

fun is_ArrowExpression :: "AstNode \<Rightarrow> bool" where
  "is_ArrowExpression (ArrowExpression tok owner referenced) = True"
| "is_ArrowExpression node = False"

text \<open>
  The function that a decorator statement or an export statement gets out of its body by
  \<^verbatim>\<open>dynamic_pointer_cast<ast::FunctionDefinition>\<close>, directly or under a
  \<^verbatim>\<open>StaticStatement\<close>: whether it is static, its return type, name, parameters and body.
  Where the cast yields a null pointer the source dereferences it; \<open>None\<close> stands for
  that, and for a body of any other class.
\<close>

fun function_of :: "AstNode \<Rightarrow> (bool \<times> AstNode \<times> AstNode \<times> AstNode parameter list \<times> AstNode) option" where
  "function_of (FunctionDefinition tok returnType name parameters body) =
     Some (False, returnType, name, parameters, body)"
| "function_of (StaticStatement tok (FunctionDefinition tok' returnType name parameters body)) =
     Some (True, returnType, name, parameters, body)"
| "function_of node = None"

text \<open>Statements in sequence: \<open>seq [a, b, c]\<close> runs \<open>a\<close>, then \<open>b\<close>, then \<open>c\<close>.\<close>

definition seq :: "('s \<Rightarrow> 's) list \<Rightarrow> 's \<Rightarrow> 's" where
  "seq stmts s = fold (\<lambda>stmt. stmt) stmts s"

text \<open>A loop \<^verbatim>\<open>for (size_t i = start; ...; ++i)\<close> over the elements of a vector.\<close>

fun for_index_from :: "nat \<Rightarrow> 'a list \<Rightarrow> (nat \<Rightarrow> 'a \<Rightarrow> 's \<Rightarrow> 's) \<Rightarrow> 's \<Rightarrow> 's" where
  "for_index_from i [] body s = s"
| "for_index_from i (x # xs) body s = for_index_from (Suc i) xs body (body i x s)"

text \<open>
  The macros \<^verbatim>\<open>local_mangle_start()\<close> ... \<^verbatim>\<open>local_mangle_end()\<close> and
  \<^verbatim>\<open>handle_ref_start()\<close> ... \<^verbatim>\<open>handle_ref_end()\<close> around the statements \<open>body\<close>.
\<close>

definition local_mangle :: "(Codegen \<Rightarrow> Codegen) \<Rightarrow> Codegen \<Rightarrow> Codegen" where
  "local_mangle body s =
     (let curr_state = local s;
          s1 = s\<lparr>local := True\<rparr>;
          symbol_map = m_symbolMap s1;
          s2 = body s1
      in s2\<lparr>local := curr_state, m_symbolMap := symbol_map\<rparr>)"

definition handle_ref :: "(Codegen \<Rightarrow> Codegen) \<Rightarrow> Codegen \<Rightarrow> Codegen" where
  "handle_ref body s =
     (let curr_ref = is_ref s;
          s1 = body (s\<lparr>is_ref := False\<rparr>)
      in s1\<lparr>is_ref := curr_ref\<rparr>)"

text \<open>
  \<^verbatim>\<open>is_define=true; node->accept(*this); is_define=false;\<close> around the visit \<open>accept\<close>
  of a name.
\<close>

definition defining :: "(Codegen \<Rightarrow> Codegen) \<Rightarrow> Codegen \<Rightarrow> Codegen" where
  "defining accept = seq [(\<lambda>s. s\<lparr>is_define := True\<rparr>), accept, (\<lambda>s. s\<lparr>is_define := False\<rparr>)]"

text \<open>
  \<^verbatim>\<open>Codegen::codegenFuncParams\<close>; \<open>accept\<close> is the visit of a node
  (\<^verbatim>\<open>node->accept(*this)\<close>).
\<close>

definition codegenFuncParams ::
  "(AstNode \<Rightarrow> Codegen \<Rightarrow> Codegen) \<Rightarrow> AstNode parameter list \<Rightarrow> nat \<Rightarrow> Codegen \<Rightarrow> Codegen" where
  "codegenFuncParams accept parameters start' =
     (if length parameters \<noteq> 0 then
        for_index_from start' (drop start' parameters)
          (\<lambda>i p.
             seq [(if i - start' \<noteq> 0 then write '', '' else id),
                  (if p_type p = NoLiteral then write ''auto'' else accept (p_type p)),
                  write '' '',
                  defining (accept (p_name p)),
                  (if p_default p \<noteq> NoLiteral then seq [write ''='', accept (p_default p)] else id)])
      else id)"

text \<open>
  The out-parameters of a tuple return type, as the three function lowerings emit them;
  \<open>star\<close> is what is written between the type and the parameter name.
\<close>

definition return_parameters ::
  "(AstNode \<Rightarrow> Codegen \<Rightarrow> Codegen) \<Rightarrow> AstNode list \<Rightarrow> (nat \<Rightarrow> Codegen \<Rightarrow> Codegen) \<Rightarrow> Codegen \<Rightarrow> Codegen" where
  "return_parameters accept return_type star =
     for_index_from 0 return_type
       (\<lambda>i t. seq [accept t, star i,
                   (if i < length return_type - 1 then write '','' else id)])"

text \<open>
  The loop \<^verbatim>\<open>for (size_t i = items.size() - 1; i != (size_t)-1; i--)\<close> of the decorator
  lowering: it starts at the last decorator and ends after the first one.
\<close>

fun wrap_loop :: "Helpers \<Rightarrow> AstNode list \<Rightarrow> nat \<Rightarrow> string \<Rightarrow> Codegen \<Rightarrow> string \<times> Codegen" where
  "wrap_loop H items 0 contains' s = (contains', s)"
| "wrap_loop H items (Suc i) contains' s =
     (let (contains'', s') = wrap H (items ! i) contains' s in wrap_loop H items i contains'' s')"

text \<open>Facts that the definition of the visitor needs: its loops and scopes only run the
  visits they are given, on the elements of their vectors.\<close>

lemma for_index_from_cong:
  "xs = ys \<Longrightarrow> (\<And>i x s. x \<in> set ys \<Longrightarrow> f i x s = g i x s) \<Longrightarrow> i = j \<Longrightarrow> s = t
     \<Longrightarrow> for_index_from i xs f s = for_index_from j ys g t"
  by (induction ys arbitrary: i j s t xs) auto

lemma for_index_from_fun_cong [fundef_cong]:
  "xs = ys \<Longrightarrow> i = j \<Longrightarrow> (\<And>i x. x \<in> set ys \<Longrightarrow> f i x = g i x)
     \<Longrightarrow> for_index_from i xs f = for_index_from j ys g"
  by (rule ext, rule for_index_from_cong) auto

lemma fold_fun_cong [fundef_cong]:
  "xs = ys \<Longrightarrow> (\<And>x. x \<in> set ys \<Longrightarrow> f x = g x) \<Longrightarrow> fold f xs = fold g ys"
  by (rule ext, rule fold_cong) auto

lemma codegenFuncParams_cong [fundef_cong]:
  assumes "ps = ps'" "k = k'"
    and "\<And>p. p \<in> set ps' \<Longrightarrow> accept (p_type p) = accept' (p_type p)"
    and "\<And>p. p \<in> set ps' \<Longrightarrow> accept (p_name p) = accept' (p_name p)"
    and "\<And>p. p \<in> set ps' \<Longrightarrow> accept (p_default p) = accept' (p_default p)"
  shows "codegenFuncParams accept ps k = codegenFuncParams accept' ps' k'"
proof -
  have "p \<in> set ps'" if "p \<in> set (drop k' ps')" for p
    using that by (rule in_set_dropD)
  then show ?thesis
    unfolding codegenFuncParams_def assms(1,2)
    by (intro if_cong refl ext for_index_from_cong) (simp_all add: assms(3-5) seq_def)
qed

lemma return_parameters_cong [fundef_cong]:
  assumes "ts = ts'" "star = star'" "\<And>t. t \<in> set ts' \<Longrightarrow> accept t = accept' t"
  shows "return_parameters accept ts star = return_parameters accept' ts' star'"
  unfolding return_parameters_def using assms
  by (auto simp: fun_eq_iff seq_def intro!: for_index_from_cong)

lemma size_list_member: "x \<in> set xs \<Longrightarrow> f x \<le> size_list f xs"
  by (induction xs) auto

lemma size_fst_member: "p \<in> set ps \<Longrightarrow> f (fst p) < size_list (size_prod f g) ps"
  using size_list_member [of p ps "size_prod f g"] by (cases p) simp

lemma size_snd_member: "p \<in> set ps \<Longrightarrow> g (snd p) < size_list (size_prod f g) ps"
  using size_list_member [of p ps "size_prod f g"] by (cases p) simp

lemma size_parameter_member:
  assumes "p \<in> set ps"
  shows "size (p_type p) < size_list (size_parameter size) ps"
    "size (p_name p) < size_list (size_parameter size) ps"
    "size (p_default p) < size_list (size_parameter size) ps"
  using size_list_member [OF assms, of "size_parameter size"] by (cases p; simp)+

lemma size_function_of:
  assumes "function_of body = Some (static, returnType, name, parameters, fbody)"
  shows "size returnType < size body" "size name < size body" "size fbody < size body"
    "size_list (size_parameter size) parameters < size body"
  using assms by (induction body rule: function_of.induct) auto

lemma size_TurpleTypes: "t \<in> set (TurpleTypes node) \<Longrightarrow> size t < size node"
  by (cases node) (auto simp: less_Suc_eq_le intro: size_list_estimation')

lemma size_TurpleExpression: "t \<in> set (TurpleExpression node) \<Longrightarrow> size t < size node"
  by (cases node) (auto simp: less_Suc_eq_le intro: size_list_estimation')

lemma size_node_member: "x \<in> set (xs :: AstNode list) \<Longrightarrow> size x \<le> size_list size xs"
  by (rule size_list_member)

lemma size_node_nth: "i < length (xs :: AstNode list) \<Longrightarrow> size (xs ! i) \<le> size_list size xs"
  by (simp add: size_list_member)

lemma size_pair_member:
  "(a, b) \<in> set (ps :: (AstNode \<times> AstNode) list) \<Longrightarrow>
     size a < size_list (size_prod size size) ps \<and> size b < size_list (size_prod size size) ps"
  using size_fst_member [of "(a, b)" ps size size] size_snd_member [of "(a, b)" ps size size]
  by simp

lemma size_case_member:
  "(a, b) \<in> set (cs :: (AstNode list \<times> AstNode) list) \<Longrightarrow>
     size_list size a < size_list (size_prod (size_list size) size) cs
     \<and> size b < size_list (size_prod (size_list size) size) cs"
  using size_fst_member [of "(a, b)" cs "size_list size" size]
    size_snd_member [of "(a, b)" cs size "size_list size"]
  by simp

lemma size_clause_member:
  "((a, b), c) \<in> set (cl :: ((AstNode list \<times> AstNode) \<times> AstNode) list) \<Longrightarrow>
     size_list size a < size_list (size_prod (size_prod (size_list size) size) size) cl
     \<and> size b < size_list (size_prod (size_prod (size_list size) size) size) cl
     \<and> size c < size_list (size_prod (size_prod (size_list size) size) size) cl"
  using size_fst_member [of "((a, b), c)" cl "size_prod (size_list size) size" size]
    size_snd_member [of "((a, b), c)" cl size "size_prod (size_list size) size"]
  by simp

lemma size_parameter_member':
  "p \<in> set ps \<Longrightarrow>
     size (p_type p) < size_list (size_parameter size) ps
     \<and> size (p_name p) < size_list (size_parameter size) ps
     \<and> size (p_default p) < size_list (size_parameter size) ps"
  by (simp add: size_parameter_member)

lemma size_function_of':
  "function_of body = Some (static, returnType, name, parameters, fbody) \<Longrightarrow>
     size returnType < size body \<and> size name < size body \<and> size fbody < size body
     \<and> size_list (size_parameter size) parameters < size body"
  by (simp add: size_function_of)

text \<open>
  The visitor.  \<open>visit H node\<close> is \<^verbatim>\<open>node->accept(*this)\<close>: the handler
  \<^verbatim>\<open>Codegen::visit\<close> of the class of \<open>node\<close>, as a function from the generator object
  before the call to the object after it (every handler returns \<^verbatim>\<open>true\<close>).  Statements
  that follow each other are the elements of a list under \<open>seq\<close>, first statement first.  The source
  dereferences a null pointer without a test; \<open>visit H NullPtr\<close> is left as the identity
  and nothing below is a statement about such a tree.  The children of \<^verbatim>\<open>TernaryIf\<close> are
  its condition, its value and its else value; those of \<^verbatim>\<open>TryExcept\<close> clauses are the
  exception names with the bound name, then the handler body.
\<close>

function visit :: "Helpers \<Rightarrow> AstNode \<Rightarrow> Codegen \<Rightarrow> Codegen" where
  "visit H NullPtr = id"
| "visit H (Program stmts) = fold (\<lambda>stmt. seq [visit H stmt, write '';\<newline>'']) stmts"
| "visit H (BlockStatement stmts) =
     fold (\<lambda>stmt. seq [write ''    '', visit H stmt, write '';\<newline>'']) stmts"
| "visit H (ImportStatement tok moduleName importedSymbols) = id"
| "visit H (FunctionDefinition tok returnType name parameters body) =
     (let return_type = TurpleTypes returnType;
          functionName = identifier_value name
      in (\<lambda>s.
           if \<not> is_func_def s then
             (seq [(\<lambda>s. s\<lparr>is_func_def := True\<rparr>),
                   (if functionName = ''main'' then
                      seq [write ''int main ('',
                           (\<lambda>s. s\<lparr>m_symbolMap := set_global ''main'' ''main'' (m_symbolMap s)\<rparr>),
                           local_mangle
                             (seq [codegenFuncParams (visit H) parameters 0,
                                   write '') {\<newline>'',
                                   visit H body,
                                   write ''return 0;\<newline>}''])]
                    else
                      seq [(if length return_type = 0 then visit H returnType else write ''void''),
                           write '' '',
                           defining (visit H name),
                           write ''('',
                           local_mangle
                             (seq [codegenFuncParams (visit H) parameters 0,
                                   (if length return_type > 0 \<and> length parameters > 0 then write '','' else id),
                                   return_parameters (visit H) return_type
                                     (\<lambda>i. write (''*____PEREGRINE____RETURN____'' @ to_string i @ ''=NULL'')),
                                   write '') {\<newline>'',
                                   visit H body,
                                   write ''\<newline>}''])]),
                   (\<lambda>s. s\<lparr>is_func_def := False\<rparr>)]) s
           else
             local_mangle
               (seq [write ''auto '',
                     defining (visit H name),
                     write ''=[=]('',
                     codegenFuncParams (visit H) parameters 0,
                     (if length return_type > 0 \<and> length parameters > 0 then write '','' else id),
                     return_parameters (visit H) return_type
                       (\<lambda>i. write (''*____PEREGRINE____RETURN____'' @ to_string i @ ''=NULL'')),
                     write '')mutable->'',
                     (if length return_type = 0 then visit H returnType else write ''void''),
                     write '' {\<newline>'',
                     visit H body,
                     write ''\<newline>}'']) s))"
| "visit H (VariableStatement tok varType name value) =
     seq [(if varType \<noteq> NoLiteral
           then seq [visit H varType, (\<lambda>s. s\<lparr>is_define := True\<rparr>), write '' '']
           else id),
          visit H name,
          (\<lambda>s. s\<lparr>is_define := False\<rparr>),
          (if value \<noteq> NoLiteral then seq [write '' = '', visit H value] else id)]"
| "visit H (ConstDeclaration tok constType name value) =
     seq [write ''const '',
          (if constType \<noteq> NoLiteral then visit H constType else id),
          write '' '',
          defining (visit H name),
          write ''='',
          visit H value]"
| "visit H (TypeDefinition tok name baseType) =
     seq [write ''typedef '', visit H baseType, write '' '', defining (visit H name)]"
| "visit H (PassStatement tok) = write ''\<newline>//pass''"
| "visit H (IfStatement tok condition ifBody elseBody elifs) =
     seq [write ''if ('', visit H condition, write '') {\<newline>'', visit H ifBody, write ''}'',
          (if length elifs \<noteq> 0 then
             seq [write ''\<newline>'',
                  fold (\<lambda>body. seq [write ''else if ('', visit H (fst body), write '') {\<newline>'',
                                      visit H (snd body), write ''}'']) elifs]
           else id),
          (if is_BlockStmt elseBody then seq [write ''\<newline>else {\<newline>'', visit H elseBody, write ''}'']
           else id)]"
| "visit H (WhileStatement tok condition body) =
     seq [write ''while ('', visit H condition, write '') {\<newline>'', visit H body, write ''}'']"
| "visit H (ForStatement tok variable sequence body) =
     seq [write ''{\<newline>auto ____PEREGRINE____VALUE='',
          visit H sequence,
          write '';\<newline>'',
          write ''for (size_t ____PEREGRINE____i=0;____PEREGRINE____i<____PEREGRINE____VALUE.____PEREGRINE____PEREGRINE______iter__();++____PEREGRINE____i){\<newline>'',
          (case variable of
             [x] \<Rightarrow>
               seq [write ''auto '', visit H x,
                    write ''=____PEREGRINE____VALUE.____PEREGRINE____PEREGRINE______iterate__();\<newline>'']
           | _ \<Rightarrow>
               seq [write ''auto ____PEREGRINE____TEMP=____PEREGRINE____VALUE.____PEREGRINE____PEREGRINE______iterate__();\<newline>'',
                    for_index_from 0 variable
                      (\<lambda>i x. seq [write ''auto '', visit H x,
                                  write ''=____PEREGRINE____TEMP.____PEREGRINE____PEREGRINE______getitem__('',
                                  write (to_string i),
                                  write '');\<newline>''])]),
          visit H body,
          write ''\<newline>}\<newline>}'']"
| "visit H (MatchStatement tok toMatch cases defaultBody) =
     seq [write ''\<newline>while (true) {\<newline>'',
          for_index_from 0 cases
            (\<lambda>i currCase.
               if length (fst currCase) = 1 \<and> fst currCase ! 0 = NoLiteral then
                 (if i = 0 then seq [visit H (snd currCase), write ''\<newline>'']
                  else seq [write ''else {\<newline>'', visit H (snd currCase), write ''\<newline>}\<newline>''])
               else if i = 0 then
                 seq [write ''if ('', matchArg H toMatch (fst currCase), write '') {\<newline>'',
                      visit H (snd currCase), write ''\<newline>}\<newline>'']
               else
                 seq [write ''else if ('', matchArg H toMatch (fst currCase), write '') {\<newline>'',
                      visit H (snd currCase), write ''\<newline>}\<newline>'']),
          (if defaultBody \<noteq> NoLiteral then visit H defaultBody else id),
          write ''\<newline>break;\<newline>}'']"
| "visit H (ScopeStatement tok body) = seq [write ''{\<newline>'', visit H body, write ''\<newline>}'']"
| "visit H (ReturnStatement tok returnValue) =
     (if returnValue \<noteq> NoLiteral then
        (let return_values = TurpleExpression returnValue in
         if length return_values = 0 then seq [write ''return '', visit H returnValue]
         else
           seq [write ''if (____PEREGRINE____RETURN____0!=NULL){\<newline>'',
                for_index_from 0 return_values
                  (\<lambda>i v. seq [write ''    '',
                              write (''*____PEREGRINE____RETURN____'' @ to_string i @ ''=''),
                              visit H v,
                              write '';\<newline>'']),
                write ''}\<newline>''])
      else write ''return '')"
| "visit H (ContinueStatement tok) = write ''continue''"
| "visit H (BreakStatement tok) = write ''break''"
| "visit H (DecoratorStatement tok items body) =
     (\<lambda>s0.
        let s1 = s0\<lparr>save := True\<rparr>;
            (prev, s2) = (if res s1 \<noteq> [] then (res s1, s1\<lparr>res := []\<rparr>) else ([], s1));
            (x, contains', s3) =
              (case function_of body of
                 Some (static, returnType, name, parameters, fbody) \<Rightarrow>
                   (let sa = (seq [(if static then write ''static '' else id),
                                   write ''auto '',
                                   defining (visit H name),
                                   write ''='']) s2;
                        x = res sa;
                        sb = (seq [(\<lambda>s. s\<lparr>res := []\<rparr>),
                                   (\<lambda>s. if is_func_def s then write ''[=]('' s else write ''[]('' s)]) sa;
                        return_type = TurpleTypes returnType;
                        sc = local_mangle
                               (seq [codegenFuncParams (visit H) parameters 0,
                                     (if length return_type > 0 \<and> length parameters > 0
                                      then write '','' else id),
                                     return_parameters (visit H) return_type
                                       (\<lambda>i. seq [write ''*'',
                                                  write (''____PEREGRINE____RETURN____'' @ to_string i @ ''=NULL'')]),
                                     write '')mutable->'',
                                     (if length return_type = 0 then visit H returnType
                                      else write ''void''),
                                     write ''{\<newline>'',
                                     (\<lambda>s. if \<not> is_func_def s
                                           then (seq [(\<lambda>s. s\<lparr>is_func_def := True\<rparr>), visit H fbody,
                                                      (\<lambda>s. s\<lparr>is_func_def := False\<rparr>)]) s
                                           else visit H fbody s),
                                     write ''\<newline>}'']) sb
                    in (x, res sc, sc\<lparr>res := []\<rparr>))
               | None \<Rightarrow> ([], [], s2));
            (contains'', s4) = wrap_loop H items (length items) contains' s3
        in if prev = [] then write (x @ contains'') (s4\<lparr>save := False\<rparr>)
           else write (prev @ x @ contains'') s4)"
| "visit H (ListLiteral tok elements) =
     seq [write ''{'',
          (if length elements > 0 then
             for_index_from 0 elements
               (\<lambda>i e. seq [visit H e, (if i < length elements - 1 then write '','' else id)])
           else id),
          write ''}'']"
| "visit H (DictLiteral tok elements) = id"
| "visit H (ListOrDictAccess tok container keyOrIndex) =
     seq [visit H container,
          write ''.____PEREGRINE____PEREGRINE______getitem__('',
          handle_ref
            (case keyOrIndex of
               [] \<Rightarrow> id
             | [k0] \<Rightarrow> visit H k0
             | [k0, k1] \<Rightarrow> seq [visit H k0, write '','', visit H k1]
             | k0 # _ \<Rightarrow> visit H k0),
          write '')'']"
| "visit H (BinaryOperation tok left op right) =
     (if keyword op = ''**'' then
        seq [write ''_PEREGRINE_POWER('', visit H left, write '','', visit H right, write '')'']
      else if keyword op = ''//'' then
        seq [write ''_PEREGRINE_FLOOR('', visit H left, write ''/'', visit H right, write '')'']
      else if tkType tok = tk_in then
        seq [write ''('', visit H right, write ''.____PEREGRINE____PEREGRINE______contains__('',
             visit H left, write ''))'']
      else if tkType tok = tk_not_in then
        seq [write ''(not '', visit H right, write ''.____PEREGRINE____PEREGRINE______contains__('',
             visit H left, write ''))'']
      else
        seq [write ''('', visit H left, write ('' '' @ keyword op @ '' ''), visit H right,
             write '')''])"
| "visit H (PrefixExpression tok prefix right) =
     seq [write (''('' @ keyword prefix @ '' ''), visit H right, write '')'']"
| "visit H (PostfixExpression tok left postfix) = seq [visit H left, write (keyword postfix)]"
| "visit H (FunctionCall tok name arguments) =
     seq [visit H name,
          write ''('',
          handle_ref
            (if length arguments \<noteq> 0 then
               for_index_from 0 arguments (\<lambda>i a. seq [(if i \<noteq> 0 then write '', '' else id), visit H a])
             else id),
          write '')'']"
| "visit H (ArrowExpression tok owner referenced) =
     (\<lambda>s. let x = is_ref s in
        (seq [(if \<not> is_DotExpression owner \<or> \<not> is_ArrowExpression owner
               then seq [(\<lambda>s. s\<lparr>is_ref := False\<rparr>), visit H owner] else id),
              write ''->'',
              (\<lambda>s. s\<lparr>is_ref := True\<rparr>),
              visit H referenced,
              (\<lambda>s. s\<lparr>is_ref := x\<rparr>)]) s)"
| "visit H (DotExpression tok owner referenced) =
     (\<lambda>s. let x = is_ref s in
        (seq [(\<lambda>s. s\<lparr>is_ref := True\<rparr>),
              (if \<not> is_DotExpression owner \<or> \<not> is_ArrowExpression owner
               then (\<lambda>s. s\<lparr>is_ref := False\<rparr>) else id),
              (\<lambda>s.
                 if \<not> is_dot_exp s then
                   (seq [(if is_Identifier owner then
                            (let name = identifier_value owner in
                             (\<lambda>s. if count_list (enum_name s) name \<noteq> 0 \<and> contains (m_symbolMap s) name then
                                     (seq [write (lookup (m_symbolMap s) name @ ''________PEREGRINE____PEREGRINE____''),
                                           write (identifier_value referenced)]) s
                                   else
                                     (seq [(\<lambda>s. s\<lparr>is_dot_exp := True\<rparr>),
                                           visit H owner,
                                           write ''.'',
                                           (\<lambda>s. s\<lparr>is_ref := True\<rparr>),
                                           visit H referenced]) s))
                          else
                            seq [(if \<not> is_DotExpression owner then (\<lambda>s. s\<lparr>is_dot_exp := True\<rparr>) else id),
                                 visit H owner,
                                 write ''.'',
                                 (\<lambda>s. s\<lparr>is_ref := True\<rparr>),
                                 visit H referenced]),
                         (\<lambda>s. s\<lparr>is_dot_exp := False\<rparr>)]) s
                 else
                   (seq [visit H owner,
                         write ''.'',
                         (\<lambda>s. s\<lparr>is_ref := True\<rparr>),
                         visit H referenced]) s),
              (\<lambda>s. s\<lparr>is_ref := x\<rparr>)]) s)"
| "visit H (IdentifierExpression tok x) =
     (\<lambda>s.
        if is_ref s then write (''____PEREGRINE____PEREGRINE____'' @ x) s
        else if curr_enum_name s \<noteq> [] then
          (seq [write (lookup (m_symbolMap s) (curr_enum_name s) @ ''________PEREGRINE____PEREGRINE____''),
                write x]) s
        else
          (seq [(\<lambda>s. if \<not> contains (m_symbolMap s) x then
                        (if local s then s\<lparr>m_symbolMap := set_local x (m_symbolMap s)\<rparr>
                         else s\<lparr>m_symbolMap :=
                                   set_global x (''____PEREGRINE____PEREGRINE____'' @ m_global_name s @ x)
                                     (m_symbolMap s)\<rparr>)
                      else if is_define s then s\<lparr>m_symbolMap := set_local x (m_symbolMap s)\<rparr>
                      else s),
                (\<lambda>s. write (lookup (m_symbolMap s) x) s)]) s)"
| "visit H (TypeExpression tok x generic_types) =
     seq [(\<lambda>s. if \<not> contains (m_symbolMap s) x then write x s
                else write (lookup (m_symbolMap s) x) s),
          (if length generic_types > 0 then
             seq [write ''<'',
                  for_index_from 0 generic_types
                    (\<lambda>i g. seq [visit H g, (if i < length generic_types - 1 then write '','' else id)]),
                  write ''>'']
           else id)]"
| "visit H (ListTypeExpr tok elemType) = id"
| "visit H (DictTypeExpr tok keyType valueType) = id"
| "visit H (FunctionTypeExpr tok argTypes returnTypes) =
     (let return_type = TurpleTypes returnTypes in
      seq [write ''std::function<'',
           (if length return_type = 0 then seq [visit H returnTypes, write ''(''] else write ''void(''),
           (if length argTypes > 0 then
              seq [for_index_from 0 argTypes (\<lambda>i a. seq [(if i \<noteq> 0 then write '','' else id), visit H a]),
                   (if length return_type > 0 then write '','' else id)]
            else id),
           return_parameters (visit H) return_type (\<lambda>i. write ''*''),
           write '')>''])"
| "visit H NoLiteral = id"
| "visit H (IntegerLiteral tok v) = write v"
| "visit H (DecimalLiteral tok v) = write v"
| "visit H (StringLiteral tok v formatted raw) = write (dquote @ v @ dquote)"
| "visit H (BoolLiteral tok v) = write (if v = ''True'' then ''true'' else ''false'')"
| "visit H (NoneLiteral tok) = write ''NULL''"
| "visit H (AssertStatement tok condition) =
     seq [write ''if(not '',
          visit H condition,
          write ''){\<newline>'',
          (\<lambda>s. write (''printf('' @ dquote @ ''AssertionError : in line '' @ to_string (line tok) @
                       '' in file '' @ m_filename s @ backslash @ ''n   '' @ statement tok @
                       backslash @ ''n'' @ dquote @
                       '');fflush(stdout);throw error________PEREGRINE____PEREGRINE____AssertionError;'') s),
          write ''\<newline>}'']"
| "visit H (StaticStatement tok body) = seq [write ''static '', visit H body]"
| "visit H (InlineStatement tok body) = seq [write ''inline '', visit H body]"
| "visit H (RaiseStatement tok value) =
     seq [write ''throw '', (if value \<noteq> NoLiteral then visit H value else write ''0'')]"
| "visit H (UnionLiteral tok elements name) =
     seq [write ''typedef union{\<newline>'',
          local_mangle
            (seq [fold (\<lambda>element. seq [visit H (fst element), write '' '',
                                         defining (visit H (snd element)), write '';\<newline>'']) elements,
                  write ''\<newline>}'']),
          defining (visit H name)]"
| "visit H (EnumLiteral tok fields' name_ast) =
     (let name = identifier_value name_ast in
      seq [write ''typedef enum{\<newline>'',
           (\<lambda>s. s\<lparr>enum_name := enum_name s @ [name]\<rparr>),
           for_index_from 0 fields'
             (\<lambda>i field.
                seq [visit H name_ast,
                     write ''____'',
                     local_mangle (visit H (fst field)),
                     (if snd field \<noteq> NoLiteral then
                        seq [(\<lambda>s. s\<lparr>curr_enum_name := name\<rparr>), write '' = '', visit H (snd field),
                             (\<lambda>s. s\<lparr>curr_enum_name := []\<rparr>)]
                      else id),
                     (if i \<noteq> length fields' - 1 then write '',\<newline>'' else id)]),
           write ''\<newline>}'',
           visit H name_ast])"
| "visit H (CastStatement tok cast_type value) =
     seq [write ''('', visit H cast_type, write '')('', visit H value, write '')'']"
| "visit H (PointerTypeExpr tok baseType) = seq [visit H baseType, write ''*'']"
| "visit H (RefTypeExpr tok baseType) = seq [visit H baseType, write ''&'']"
| "visit H (ClassDefinition tok name_ast parents attributes methods other) =
     seq [write ''class '',
          defining (visit H name_ast),
          (\<lambda>s. let name = lookup (m_symbolMap s) (identifier_value name_ast) in
             (seq [(if length parents \<noteq> 0 then write '':'' else id),
                   for_index_from 0 parents
                     (\<lambda>i parent. seq [write ''public '', visit H parent,
                                      (if i < length parents - 1 then write '','' else id)]),
                   write ''\<newline>{'',
                   local_mangle
                     (seq [fold (\<lambda>x. seq [visit H x, write '';\<newline>'']) other,
                           write ''public:\<newline>'',
                           (\<lambda>s. if \<not> is_class s then
                                   (seq [(\<lambda>s. s\<lparr>is_class := True\<rparr>),
                                         fold (\<lambda>x. seq [visit H x, write '';\<newline>'']) attributes,
                                         fold (\<lambda>x. seq [magic_methord H x name, write '';\<newline>'']) methods,
                                         (\<lambda>s. s\<lparr>is_class := False\<rparr>)]) s
                                 else
                                   (seq [(\<lambda>s. s\<lparr>is_class := True\<rparr>),
                                         fold (\<lambda>x. seq [visit H x, write '';\<newline>'']) attributes,
                                         fold (\<lambda>x. seq [magic_methord H x name, write '';\<newline>'']) methods,
                                         (\<lambda>s. s\<lparr>is_class := False\<rparr>)]) s),
                           write ''\<newline>}''])]) s)]"
| "visit H (WithStatement tok variables values body) =
     (let no_var = map to_string [0..<length values] in
      seq [write ''{\<newline>'',
           for_index_from 0 values
             (\<lambda>i v.
                seq [write ''auto CONTEXT____MANAGER____PEREGRINE____'',
                     write (to_string i),
                     write ''='',
                     visit H v,
                     write '';\<newline>'',
                     (if i < length variables then
                        (if variables ! i \<noteq> NoLiteral then
                           seq [write ''auto '',
                                visit H (variables ! i),
                                write ''='',
                                write (''CONTEXT____MANAGER____PEREGRINE____'' @ to_string i),
                                write ''.____PEREGRINE____PEREGRINE______enter__()'']
                         else
                           seq [write (''CONTEXT____MANAGER____PEREGRINE____'' @ to_string i),
                                write ''.____PEREGRINE____PEREGRINE______enter__()''])
                      else id),
                     write '';\<newline>'']),
           visit H body,
           fold (\<lambda>x. seq [write (''CONTEXT____MANAGER____PEREGRINE____'' @ x),
                           write ''.____PEREGRINE____PEREGRINE______end__();\<newline>'']) no_var,
           write ''\<newline>}\<newline>''])"
| "visit H (DefaultArg tok name value) = visit H value"
| "visit H (ExportStatement tok body) =
     (let name = (case function_of body of
                    Some (static, returnType, name, parameters, fbody) \<Rightarrow> identifier_value name
                  | None \<Rightarrow> [])
      in seq [write (''extern '' @ dquote @ ''C'' @ dquote @ '' ''),
              (\<lambda>s. s\<lparr>m_symbolMap := set_global name name (m_symbolMap s)\<rparr>),
              visit H body])"
| "visit H (TernaryIf tok if_condition if_value else_value) =
     seq [write ''('', visit H if_condition, write '')?'', visit H if_value, write '':'',
          visit H else_value]"
| "visit H (TryExcept tok body except_clauses else_body) =
     seq [write ''try{\<newline>'',
          visit H body,
          write (''}\<newline>catch(error __PEREGRINE__exception){\<newline>''),
          (if length except_clauses > 0 then
             seq [write ''if ('',
                  for_index_from 0 except_clauses
                    (\<lambda>j x.
                       seq [(if j \<noteq> 0 then write ''else if ('' else id),
                            for_index_from 0 (fst (fst x))
                              (\<lambda>i e. seq [write ''__PEREGRINE__exception=='', visit H e,
                                          (if i < length (fst (fst x)) - 1 then write '' or '' else id)]),
                            write ''){\<newline>'',
                            (if snd (fst x) \<noteq> NoLiteral then
                               seq [write ''auto '', visit H (snd (fst x)), write ''=__PEREGRINE__exception;\<newline>'']
                             else id),
                            visit H (snd x),
                            write ''}\<newline>''])]
           else id),
          (if else_body \<noteq> NoLiteral then
             (if length except_clauses > 0
              then seq [write ''else{'', visit H else_body, write ''}\<newline>'']
              else visit H else_body)
           else
             (if length except_clauses > 0
              then seq [write ''else{'', write ''throw __PEREGRINE__exception;\<newline>'', write ''}\<newline>'']
              else write ''throw __PEREGRINE__exception;\<newline>'')),
          write ''}'']"
| "visit H (MultipleAssign tok names values) =
     seq [write ''{'',
          for_index_from 0 values
            (\<lambda>i v. seq [write (''auto _____PEREGRINE____temp____'' @ to_string i @ ''=''), visit H v,
                        write '';'']),
          for_index_from 0 names
            (\<lambda>i n. seq [visit H n, write (''=_____PEREGRINE____temp____'' @ to_string i), write '';'']),
          write ''}'']"
| "visit H (AugAssign tok name op value) = seq [visit H name, write op, visit H value]"
| "visit H (LamdaDefine tok types return_types) = visit_elsewhere H (LamdaDefine tok types return_types)"
| "visit H (TypeTuple tok types) = visit_elsewhere H (TypeTuple tok types)"
| "visit H (ExpressionTuple tok items) = visit_elsewhere H (ExpressionTuple tok items)"
| "visit H (InlineCppBlock tok code) = visit_elsewhere H (InlineCppBlock tok code)"
  by pat_completeness auto

termination
  apply (relation "measure (\<lambda>(H, node). size node)")
   apply simp
  apply (auto simp: less_Suc_eq_le
      dest!: size_TurpleTypes size_TurpleExpression size_function_of' size_parameter_member'
        size_pair_member size_case_member size_clause_member)
  apply (auto dest!: size_node_member size_node_nth)
  done

declare visit.simps [simp del]

section \<open>Properties of the symbol map\<close>

text \<open>
  C8.  Lookup and insertion in \<^verbatim>\<open>MangleName\<close>: the reserved names \<^verbatim>\<open>printf\<close> and
  \<^verbatim>\<open>error\<close> are always contained and are looked up to themselves, whatever the two
  maps hold; for every other name an entry of the local map wins over the global map, an
  entry of the global map is used when the local map has none, and a name in neither map
  is not contained and is looked up to itself; \<^verbatim>\<open>set_local(name)\<close> stores
  \<^verbatim>\<open>____PEREGRINE____PEREGRINE____<name>\<close> under \<^verbatim>\<open>name\<close> in the local map and
  leaves the global map alone.
\<close>

theorem MangleName_lookup_precedence:
  "(contains m ''printf'' \<and> contains m ''error''
      \<and> lookup m ''printf'' = ''printf'' \<and> lookup m ''error'' = ''error'')
   \<and> (name \<noteq> ''printf'' \<and> name \<noteq> ''error'' \<longrightarrow>
        (\<forall>l. m_local_names m name = Some l \<longrightarrow> contains m name \<and> lookup m name = l)
      \<and> (\<forall>g. m_local_names m name = None \<and> m_global_names m name = Some g
              \<longrightarrow> contains m name \<and> lookup m name = g)
      \<and> (m_local_names m name = None \<and> m_global_names m name = None
              \<longrightarrow> \<not> contains m name \<and> lookup m name = name))
   \<and> m_local_names (set_local name m) name = Some (''____PEREGRINE____PEREGRINE____'' @ name)
   \<and> m_global_names (set_local name m) = m_global_names m"
  by (simp add: contains_def lookup_def set_local_def)

theorem MangleName_lookup_precedence_witness:
  "''x'' \<noteq> ''printf'' \<and> ''x'' \<noteq> ''error''
   \<and> m_local_names (set_local ''x'' (set_global ''x'' ''gx'' \<lparr>m_global_names = Map.empty, m_local_names = Map.empty\<rparr>)) ''x''
        = Some ''____PEREGRINE____PEREGRINE____x''
   \<and> lookup (set_local ''x'' (set_global ''x'' ''gx'' \<lparr>m_global_names = Map.empty, m_local_names = Map.empty\<rparr>)) ''x''
        = ''____PEREGRINE____PEREGRINE____x''
   \<and> m_local_names (set_global ''x'' ''gx'' \<lparr>m_global_names = Map.empty, m_local_names = Map.empty\<rparr>) ''x'' = None
   \<and> m_global_names (set_global ''x'' ''gx'' \<lparr>m_global_names = Map.empty, m_local_names = Map.empty\<rparr>) ''x'' = Some ''gx''
   \<and> lookup (set_global ''x'' ''gx'' \<lparr>m_global_names = Map.empty, m_local_names = Map.empty\<rparr>) ''x'' = ''gx''
   \<and> m_global_names \<lparr>m_global_names = Map.empty, m_local_names = Map.empty\<rparr> ''x'' = None
   \<and> \<not> contains \<lparr>m_global_names = Map.empty, m_local_names = Map.empty\<rparr> ''x''
   \<and> lookup \<lparr>m_global_names = Map.empty, m_local_names = Map.empty\<rparr> ''x'' = ''x''"
  using MangleName_lookup_precedence
          [of "set_local ''x'' (set_global ''x'' ''gx'' \<lparr>m_global_names = Map.empty, m_local_names = Map.empty\<rparr>)" "''x''"]
        MangleName_lookup_precedence
          [of "set_global ''x'' ''gx'' \<lparr>m_global_names = Map.empty, m_local_names = Map.empty\<rparr>" "''x''"]
        MangleName_lookup_precedence
          [of "\<lparr>m_global_names = Map.empty, m_local_names = Map.empty\<rparr>" "''x''"]
  by (simp add: set_local_def set_global_def)

end
